theory Spec2Isabelle
  imports Complex_Main "HOL-Library.Sublist"
begin

section \<open>The cart core of QKart: \<open>src/components/Cart.js\<close>\<close>

text \<open>
  The three exported functions of \<open>Cart.js\<close> are embedded: \<open>generateCartItemsFrom\<close>,
  \<open>getTotalCartValue\<close> and \<open>getTotalItems\<close>.

  JavaScript is untyped, so an argument of a function is a value of \<open>jsval\<close>: \<open>undefined\<close>
  (also what an absent argument is), \<open>null\<close>, a boolean, a number, a string, a plain object
  or an array. \<open>JObj\<close> stands for a plain data object that has no property named
  \<open>length\<close>, \<open>map\<close> or \<open>reduce\<close>. The elements of an array are typed: the records below.

  Numbers are a type parameter \<open>'n\<close> of the records and of the functions, which use only
  \<open>0\<close>, \<open>+\<close>, \<open>*\<close> and \<open>\<le>\<close> of it and assume no law. The number type of the program is
  \<open>jsnum\<close>, the IEEE-754 double precision numbers of JavaScript, with their rounding,
  the infinities and \<open>NaN\<close>; the theorems about the two aggregates are stated for it.
\<close>

subsection \<open>Values and errors\<close>

datatype jserror = TypeError

datatype ('n, 'a) jsval =
    JUndefined
  | JNull
  | JBool bool
  | JNum 'n
  | JStr string
  | JObj
  | JArr "'a list"

text \<open>
  \<open>!v\<close> is \<open>\<not> truthy v\<close>. Objects and arrays are always truthy. A number is falsy when
  it is zero or \<open>NaN\<close>; \<open>NaN\<close> is the one number that does not compare \<open>\<le>\<close> to itself.
\<close>

fun truthy :: "('n::{zero,ord}, 'a) jsval \<Rightarrow> bool" where
  "truthy JUndefined = False"
| "truthy JNull = False"
| "truthy (JBool b) = b"
| "truthy (JNum n) = (n \<noteq> 0 \<and> n \<le> n)"
| "truthy (JStr s) = (s \<noteq> [])"
| "truthy JObj = True"
| "truthy (JArr xs) = True"

text \<open>\<open>Array.isArray(v)\<close>.\<close>

fun isArray :: "('n, 'a) jsval \<Rightarrow> bool" where
  "isArray (JArr xs) = True"
| "isArray v = False"

text \<open>
  \<open>v.length\<close>: reading a property of \<open>undefined\<close> or \<open>null\<close> throws a TypeError; an array and
  a string have a length; every other value gives \<open>undefined\<close>, here \<open>None\<close>.
\<close>

fun js_length :: "('n, 'a) jsval \<Rightarrow> jserror + nat option" where
  "js_length JUndefined = Inl TypeError"
| "js_length JNull = Inl TypeError"
| "js_length (JArr xs) = Inr (Some (length xs))"
| "js_length (JStr s) = Inr (Some (length s))"
| "js_length v = Inr None"

text \<open>\<open>!len\<close> for the value of a \<open>length\<close> property: \<open>!undefined\<close> and \<open>!0\<close> are true.\<close>

fun js_not_len :: "nat option \<Rightarrow> bool" where
  "js_not_len None = True"
| "js_not_len (Some n) = (n = 0)"

text \<open>The elements of an array value; applied only to a value that passed \<open>isArray\<close>.\<close>

fun elems :: "('n, 'a) jsval \<Rightarrow> 'a list" where
  "elems (JArr xs) = xs"
| "elems v = []"

text \<open>A default parameter \<open>(items = d)\<close> replaces \<open>undefined\<close> only, not \<open>null\<close>.\<close>

fun default_param :: "('n, 'a) jsval \<Rightarrow> ('n, 'a) jsval \<Rightarrow> ('n, 'a) jsval" where
  "default_param JUndefined d = d"
| "default_param v d = v"

text \<open>
  \<open>v.reduce(f, init)\<close>: a left fold on an array. On \<open>undefined\<close> and \<open>null\<close> the property
  read throws; on any other value \<open>v.reduce\<close> is \<open>undefined\<close> and the call throws
  (\<open>v.reduce is not a function\<close>).
\<close>

fun js_reduce :: "('b \<Rightarrow> 'a \<Rightarrow> 'b) \<Rightarrow> 'b \<Rightarrow> ('n, 'a) jsval \<Rightarrow> jserror + 'b" where
  "js_reduce f init (JArr xs) = Inr (foldl f init xs)"
| "js_reduce f init v = Inl TypeError"

subsection \<open>The data structures of \<open>Cart.js\<close>\<close>

text \<open>
  \<open>Product\<close> and \<open>CartItem\<close> are the two typedefs of the file; \<open>CartEntry\<close> is the element
  type \<open>{ productId, qty }\<close> of \<open>cartData\<close>. The field \<open>_id\<close> of a product is \<open>p_id\<close> here.
\<close>

record 'n Product =
  name :: string
  category :: string
  cost :: 'n
  rating :: 'n
  image :: string
  p_id :: string

record 'n CartEntry =
  productId :: string
  qty :: 'n

record 'n CartItem =
  name :: string
  qty :: 'n
  category :: string
  cost :: 'n
  rating :: 'n
  image :: string
  productId :: string

subsection \<open>The console\<close>

text \<open>The state of the logging collaborator: the messages written so far, oldest first.\<close>

type_synonym console = "string list"

definition console_error :: "string \<Rightarrow> console \<Rightarrow> console" where
  "console_error msg con = con @ [msg]"

subsection \<open>\<open>generateCartItemsFrom\<close>\<close>

text \<open>
  The callback of \<open>cartData.map\<close>: \<open>find\<close> returns the first product whose \<open>_id\<close> is
  strictly equal to the entry's \<open>productId\<close>, or \<open>undefined\<close>. \<open>None\<close> is the \<open>null\<close> that
  the callback returns for a product that is not found.
\<close>

definition cart_callback ::
  "'n Product list \<Rightarrow> 'n CartEntry \<Rightarrow> console \<Rightarrow> 'n CartItem option \<times> console" where
  "cart_callback productsData cartItem con =
     (case List.find (\<lambda>product. p_id product = CartEntry.productId cartItem) productsData of
        None \<Rightarrow>
          (None,
           console_error (''Product with ID '' @ CartEntry.productId cartItem @ '' not found.'') con)
      | Some product \<Rightarrow>
          (Some \<lparr> CartItem.name = Product.name product,
                  qty = CartEntry.qty cartItem,
                  category = Product.category product,
                  cost = Product.cost product,
                  rating = Product.rating product,
                  image = Product.image product,
                  productId = p_id product \<rparr>,
           con))"

text \<open>\<open>xs.map(f)\<close> on an array, for a callback with an effect on the console: left to right.\<close>

fun map_array :: "('a \<Rightarrow> console \<Rightarrow> 'b \<times> console) \<Rightarrow> 'a list \<Rightarrow> console \<Rightarrow> 'b list \<times> console" where
  "map_array f [] con = ([], con)"
| "map_array f (x # xs) con =
     (case f x con of (y, con') \<Rightarrow>
        (case map_array f xs con' of (ys, con'') \<Rightarrow> (y # ys, con'')))"

text \<open>
  \<open>v.map(f)\<close> on any value: on \<open>undefined\<close> and \<open>null\<close> the property read throws, on any
  other value that is not an array \<open>v.map\<close> is not a function. Nothing is logged then.
\<close>

fun js_map ::
  "('a \<Rightarrow> console \<Rightarrow> 'b \<times> console) \<Rightarrow> ('n, 'a) jsval \<Rightarrow> console \<Rightarrow> (jserror + 'b list) \<times> console" where
  "js_map f (JArr xs) con = (case map_array f xs con of (ys, con') \<Rightarrow> (Inr ys, con'))"
| "js_map f v con = (Inl TypeError, con)"

text \<open>\<open>xs.filter(Boolean)\<close> on an array of objects and \<open>null\<close>s: the objects, in order.\<close>

fun filter_Boolean :: "'a option list \<Rightarrow> 'a list" where
  "filter_Boolean [] = []"
| "filter_Boolean (None # xs) = filter_Boolean xs"
| "filter_Boolean (Some x # xs) = x # filter_Boolean xs"

definition generateCartItemsFrom ::
  "('n, 'n CartEntry) jsval \<Rightarrow> ('n::{zero,ord}, 'n Product) jsval \<Rightarrow> console
     \<Rightarrow> (jserror + 'n CartItem list) \<times> console" where
  "generateCartItemsFrom cartData productsData con =
     (if \<not> truthy productsData \<or> \<not> isArray productsData \<or> js_length productsData = Inr (Some 0)
      then (Inr [], con)
      else
        (case js_map (cart_callback (elems productsData)) cartData con of
           (Inl e, con') \<Rightarrow> (Inl e, con')
         | (Inr cartItems, con') \<Rightarrow> (Inr (filter_Boolean cartItems), con')))"

subsection \<open>\<open>getTotalCartValue\<close> and \<open>getTotalItems\<close>\<close>

definition getTotalCartValue :: "('n::{zero,plus,times}, 'n CartItem) jsval \<Rightarrow> jserror + 'n" where
  "getTotalCartValue items0 =
     (let items = default_param items0 (JArr [])
      in js_reduce (\<lambda>total item. total + CartItem.cost item * CartItem.qty item) 0 items)"

definition getTotalItems :: "('n::{zero,plus}, 'n CartItem) jsval \<Rightarrow> jserror + 'n" where
  "getTotalItems items0 =
     (let items = default_param items0 (JArr [])
      in case js_length items of
           Inl e \<Rightarrow> Inl e
         | Inr len \<Rightarrow>
             if js_not_len len then Inr 0
             else js_reduce (\<lambda>total item. total + CartItem.qty item) 0 items)"

subsection \<open>The numbers of JavaScript\<close>

text \<open>
  A JavaScript number is an IEEE-754 double: \<open>NaN\<close>, an infinity, or a finite value, which
  is a rational number \<open>m * 2 ^ e\<close> with \<open>\<bar>m\<bar> < 2 ^ 53\<close> and \<open>- 1074 \<le> e \<le> 971\<close>. The two zeros are
  one value here: they are equal under \<open>===\<close>, and a sum that starts from \<open>+0\<close>, as the two
  reductions do, is never \<open>-0\<close>.

  An arithmetic operation on finite values computes the exact rational result and rounds
  it to the nearest double, a tie to the one with the even significand; a result of
  magnitude \<open>2 ^ 1024\<close> or more after rounding is an infinity. The doubles are the
  values \<open>Fin q\<close> with \<open>round_double q = Fin q\<close>; the theorems hold for every value of the
  type, since each operation rounds its result.
\<close>

datatype jsnum = NaN | PInf | NInf | Fin rat

text \<open>The number of binary digits of a natural number.\<close>

fun bitlen :: "nat \<Rightarrow> nat" where
  "bitlen n = (if n = 0 then 0 else Suc (bitlen (n div 2)))"

declare bitlen.simps [simp del]

definition pow2 :: "int \<Rightarrow> rat" where
  "pow2 k = (if 0 \<le> k then 2 ^ nat k else 1 / 2 ^ nat (- k))"

text \<open>The binary exponent of a positive rational: the \<open>e\<close> with \<open>2 ^ e \<le> a < 2 ^ (e + 1)\<close>.\<close>

definition ilog2 :: "rat \<Rightarrow> int" where
  "ilog2 a =
     (if 1 \<le> a then int (bitlen (nat \<lfloor>a\<rfloor>)) - 1
      else - int (bitlen (nat (\<lceil>1 / a\<rceil> - 1))))"

text \<open>Rounding to the nearest integer, a tie to the even one.\<close>

definition round_half_even :: "rat \<Rightarrow> int" where
  "round_half_even m =
     (if m - of_int \<lfloor>m\<rfloor> < 1 / 2 then \<lfloor>m\<rfloor>
      else if 1 / 2 < m - of_int \<lfloor>m\<rfloor> then \<lfloor>m\<rfloor> + 1
      else if even \<lfloor>m\<rfloor> then \<lfloor>m\<rfloor> else \<lfloor>m\<rfloor> + 1)"

text \<open>
  The distance of neighbouring doubles at a positive rational: 53 significant bits, and
  the fixed distance \<open>2 ^ - 1074\<close> of the subnormal numbers below \<open>2 ^ - 1022\<close>.
\<close>

definition quantum :: "rat \<Rightarrow> rat" where
  "quantum a = pow2 (max (ilog2 a) (- 1022) - 52)"

definition round_to :: "rat \<Rightarrow> rat \<Rightarrow> rat" where
  "round_to u a = of_int (round_half_even (a / u)) * u"

definition overflow :: "bool \<Rightarrow> rat \<Rightarrow> jsnum" where
  "overflow neg y =
     (if pow2 1024 \<le> y then (if neg then NInf else PInf) else Fin (if neg then - y else y))"

definition round_double :: "rat \<Rightarrow> jsnum" where
  "round_double x =
     (if x = 0 then Fin 0 else overflow (x < 0) (round_to (quantum \<bar>x\<bar>) \<bar>x\<bar>))"

fun js_neg :: "jsnum \<Rightarrow> jsnum" where
  "js_neg NaN = NaN"
| "js_neg PInf = NInf"
| "js_neg NInf = PInf"
| "js_neg (Fin a) = Fin (- a)"

text \<open>\<open>x + y\<close> on numbers.\<close>

fun js_add :: "jsnum \<Rightarrow> jsnum \<Rightarrow> jsnum" where
  "js_add NaN y = NaN"
| "js_add x NaN = NaN"
| "js_add PInf NInf = NaN"
| "js_add NInf PInf = NaN"
| "js_add PInf y = PInf"
| "js_add x PInf = PInf"
| "js_add NInf y = NInf"
| "js_add x NInf = NInf"
| "js_add (Fin a) (Fin b) = round_double (a + b)"

text \<open>\<open>x * y\<close> on numbers: zero times an infinity is \<open>NaN\<close>.\<close>

fun js_mul :: "jsnum \<Rightarrow> jsnum \<Rightarrow> jsnum" where
  "js_mul NaN y = NaN"
| "js_mul x NaN = NaN"
| "js_mul (Fin a) (Fin b) = round_double (a * b)"
| "js_mul (Fin a) y = (if a = 0 then NaN else if 0 < a then y else js_neg y)"
| "js_mul x (Fin b) = (if b = 0 then NaN else if 0 < b then x else js_neg x)"
| "js_mul PInf y = y"
| "js_mul NInf y = js_neg y"

text \<open>\<open>x <= y\<close> and \<open>x < y\<close> on numbers: a comparison with \<open>NaN\<close> is false.\<close>

fun js_le :: "jsnum \<Rightarrow> jsnum \<Rightarrow> bool" where
  "js_le NaN y = False"
| "js_le x NaN = False"
| "js_le NInf y = True"
| "js_le x PInf = True"
| "js_le PInf y = False"
| "js_le x NInf = False"
| "js_le (Fin a) (Fin b) = (a \<le> b)"

fun js_less :: "jsnum \<Rightarrow> jsnum \<Rightarrow> bool" where
  "js_less NaN y = False"
| "js_less x NaN = False"
| "js_less PInf y = False"
| "js_less x NInf = False"
| "js_less NInf y = True"
| "js_less x PInf = True"
| "js_less (Fin a) (Fin b) = (a < b)"

instantiation jsnum :: "{zero,plus,times,ord}"
begin

definition zero_jsnum :: jsnum where
  "zero_jsnum = Fin 0"

definition plus_jsnum :: "jsnum \<Rightarrow> jsnum \<Rightarrow> jsnum" where
  "plus_jsnum = js_add"

definition times_jsnum :: "jsnum \<Rightarrow> jsnum \<Rightarrow> jsnum" where
  "times_jsnum = js_mul"

definition less_eq_jsnum :: "jsnum \<Rightarrow> jsnum \<Rightarrow> bool" where
  "less_eq_jsnum = js_le"

definition less_jsnum :: "jsnum \<Rightarrow> jsnum \<Rightarrow> bool" where
  "less_jsnum = js_less"

instance ..

end

text \<open>
  The numbers that are integers, and the rational value of a finite number, for the
  statements about exact sums.
\<close>

definition integral :: "jsnum \<Rightarrow> bool" where
  "integral v = (case v of Fin q \<Rightarrow> of_int \<lfloor>q\<rfloor> = q | _ \<Rightarrow> False)"

definition num_val :: "jsnum \<Rightarrow> rat" where
  "num_val v = (case v of Fin q \<Rightarrow> q | _ \<Rightarrow> 0)"

subsection \<open>The operation \<open>assemble\<close> as the specification words it\<close>

text \<open>
  The specification describes \<open>generateCartItemsFrom\<close> under the name \<open>assemble\<close>: each
  entry, in turn, is looked up in the catalog linearly by exact equality of identifiers;
  a found product gives a line item that merges the catalog fields with the quantity of the
  entry; a missing product gives a diagnostic naming the missing identifier and no line
  item. The definitions of this subsection follow these words; the theorems compare them
  with the embedding of the code above. The specification's field names \<open>id\<close>,
  \<open>quantity\<close> and \<open>imageUrl\<close> are the code's \<open>_id\<close>, \<open>qty\<close> and \<open>image\<close>.
\<close>

fun linear_lookup :: "'n Product list \<Rightarrow> string \<Rightarrow> 'n Product option" where
  "linear_lookup [] i = None"
| "linear_lookup (p # ps) i = (if p_id p = i then Some p else linear_lookup ps i)"

definition line_item :: "'n Product \<Rightarrow> 'n CartEntry \<Rightarrow> 'n CartItem" where
  "line_item p e =
     \<lparr> CartItem.name = Product.name p, qty = CartEntry.qty e,
       category = Product.category p, cost = Product.cost p, rating = Product.rating p,
       image = Product.image p, productId = p_id p \<rparr>"

definition diagnostic :: "string \<Rightarrow> string" where
  "diagnostic i = ''Product with ID '' @ i @ '' not found.''"

definition known :: "'n Product list \<Rightarrow> 'n CartEntry \<Rightarrow> bool" where
  "known catalog e = (CartEntry.productId e \<in> p_id ` set catalog)"

fun assemble_items :: "'n CartEntry list \<Rightarrow> 'n Product list \<Rightarrow> 'n CartItem list" where
  "assemble_items [] catalog = []"
| "assemble_items (e # es) catalog =
     (case linear_lookup catalog (CartEntry.productId e) of
        Some p \<Rightarrow> line_item p e # assemble_items es catalog
      | None \<Rightarrow> assemble_items es catalog)"

fun assemble_diagnostics :: "'n CartEntry list \<Rightarrow> 'n Product list \<Rightarrow> string list" where
  "assemble_diagnostics [] catalog = []"
| "assemble_diagnostics (e # es) catalog =
     (case linear_lookup catalog (CartEntry.productId e) of
        Some p \<Rightarrow> assemble_diagnostics es catalog
      | None \<Rightarrow> diagnostic (CartEntry.productId e) # assemble_diagnostics es catalog)"

section \<open>Helper lemmas\<close>

subsection \<open>Evaluating and bounding the rounding\<close>

lemma floor_rat_numeral_div: "\<lfloor>numeral a / numeral b :: rat\<rfloor> = numeral a div numeral b"
  by (metis floor_divide_of_int_eq of_int_numeral)

lemma floor_rat_one_div: "\<lfloor>1 / numeral b :: rat\<rfloor> = 1 div numeral b"
  by (metis floor_divide_of_int_eq of_int_1 of_int_numeral)

lemma ceiling_rat_numeral_div: "\<lceil>numeral a / numeral b :: rat\<rceil> = - (- numeral a div numeral b)"
  unfolding ceiling_def
  by (metis divide_minus_left floor_divide_of_int_eq of_int_neg_numeral of_int_numeral)

lemma ceiling_rat_one_div: "\<lceil>1 / numeral b :: rat\<rceil> = - (- 1 div numeral b)"
  unfolding ceiling_def
  by (metis divide_minus_left floor_divide_of_int_eq of_int_1 of_int_minus of_int_numeral)

lemma bitlen_0: "bitlen 0 = 0"
  by (simp add: bitlen.simps)

lemma bitlen_1: "bitlen 1 = 1" "bitlen (Suc 0) = 1"
  by (simp_all add: bitlen.simps)

lemma bitlen_numeral: "bitlen (numeral k) = Suc (bitlen (numeral k div 2))"
  by (subst bitlen.simps) simp

lemmas round_eval = round_double_def overflow_def round_to_def quantum_def ilog2_def pow2_def
  round_half_even_def bitlen_0 bitlen_1 bitlen_numeral
  floor_rat_numeral_div floor_rat_one_div ceiling_rat_numeral_div ceiling_rat_one_div

lemmas jsnum_eval = zero_jsnum_def plus_jsnum_def times_jsnum_def less_eq_jsnum_def
  less_jsnum_def

lemma bitlen_bounds: "0 < n \<Longrightarrow> 2 ^ (bitlen n - 1) \<le> n \<and> n < 2 ^ bitlen n"
proof (induction n rule: bitlen.induct)
  case (1 n)
  show ?case
  proof (cases "n div 2 = 0")
    case True
    with "1.prems" have "n = 1" by (simp add: div_eq_0_iff)
    then show ?thesis by (simp add: bitlen_1)
  next
    case False
    then have pos: "0 < n div 2" by simp
    from "1.prems" have n0: "n \<noteq> 0" by simp
    from "1.IH" [OF n0 pos]
    have lo: "2 ^ (bitlen (n div 2) - 1) \<le> n div 2" and hi: "n div 2 < 2 ^ bitlen (n div 2)"
      by simp_all
    have bl: "bitlen n = Suc (bitlen (n div 2))"
      using n0 by (subst bitlen.simps) simp
    have bpos: "0 < bitlen (n div 2)"
      using pos by (subst bitlen.simps) simp
    then have exp: "2 ^ bitlen (n div 2) = (2::nat) * 2 ^ (bitlen (n div 2) - 1)"
      by (cases "bitlen (n div 2)") simp_all
    have "2 * 2 ^ (bitlen (n div 2) - 1) \<le> 2 * (n div 2)" using lo by simp
    also have "\<dots> \<le> n" by simp
    finally have "2 ^ (bitlen n - 1) \<le> n" using bl exp by simp
    moreover have "n < 2 * 2 ^ bitlen (n div 2)" using hi by linarith
    then have "n < 2 ^ bitlen n" using bl by simp
    ultimately show ?thesis by simp
  qed
qed

lemma round_half_even_of_int: "round_half_even (of_int z) = z"
  by (simp add: round_half_even_def)

lemma round_double_int:
  assumes "\<bar>k\<bar> \<le> 2 ^ 53"
  shows "round_double (of_int k) = Fin (of_int k)"
proof (cases "k = 0")
  case True
  then show ?thesis by (simp add: round_double_def)
next
  case False
  define n where "n = nat \<bar>k\<bar>"
  define L where "L = bitlen n - 1"
  have npos: "0 < n" using False by (simp add: n_def)
  have absk: "\<bar>of_int k :: rat\<bar> = of_nat n" by (simp add: n_def)
  have nle: "n \<le> 2 ^ 53" using assms by (simp add: n_def nat_le_iff)
  from bitlen_bounds [OF npos] have lo: "2 ^ L \<le> n" and hi: "n < 2 ^ bitlen n"
    by (simp_all add: L_def)
  have blpos: "0 < bitlen n" using npos by (subst bitlen.simps) simp
  then have bl: "bitlen n = Suc L" by (simp add: L_def)
  have "(2::nat) ^ L \<le> 2 ^ 53" using lo nle by linarith
  then have L53: "L \<le> 53" by (rule power_le_imp_le_exp [rotated]) simp
  have one: "(1::rat) \<le> of_nat n" using npos by simp
  have il: "ilog2 (of_nat n) = int L"
    using one by (simp add: ilog2_def bl)
  have q: "quantum (of_nat n) = pow2 (int L - 52)"
    by (simp add: quantum_def il)
  have rt: "round_to (pow2 (int L - 52)) (of_nat n) = of_nat n"
  proof (cases "L \<le> 52")
    case True
    then have p: "pow2 (int L - 52) = 1 / 2 ^ (52 - L)"
      by (cases "L = 52") (simp_all add: pow2_def nat_diff_distrib')
    have "(of_nat n :: rat) / (1 / 2 ^ (52 - L)) = of_int (int n * 2 ^ (52 - L))"
      by simp
    then have "round_half_even (of_nat n / (1 / 2 ^ (52 - L))) = int n * 2 ^ (52 - L)"
      by (simp only: round_half_even_of_int)
    then show ?thesis
      by (simp add: round_to_def p)
  next
    case False
    with L53 have L: "L = 53" by simp
    with lo nle have n: "n = 2 ^ 53" by simp
    have p: "pow2 (int L - 52) = 2" by (simp add: L pow2_def)
    have "(of_nat n :: rat) / 2 = of_int (2 ^ 52)" by (simp add: n)
    then have "round_half_even (of_nat n / 2) = 2 ^ 52"
      by (simp only: round_half_even_of_int)
    then show ?thesis
      by (simp add: round_to_def p n)
  qed
  have big: "\<not> pow2 1024 \<le> (of_nat n :: rat)"
  proof -
    have "(of_nat n :: rat) \<le> 2 ^ 53" using nle
      by (metis of_nat_le_iff of_nat_numeral of_nat_power)
    also have "\<dots> < 2 ^ 1024" by (rule power_strict_increasing) simp_all
    finally show ?thesis by (simp add: pow2_def)
  qed
  have "round_double (of_int k) = Fin (if k < 0 then - of_nat n else of_nat n)"
    using False by (simp add: round_double_def absk q rt overflow_def big)
  also have "(if k < 0 then - of_nat n else of_nat n :: rat) = of_int k"
    by (simp add: n_def)
  finally show ?thesis .
qed

lemma round_double_integer:
  assumes "of_int \<lfloor>q\<rfloor> = q" and "\<bar>q\<bar> \<le> 2 ^ 53"
  shows "round_double q = Fin q"
proof -
  define z where "z = \<lfloor>q\<rfloor>"
  have qz: "q = of_int z" unfolding z_def by (rule assms(1) [symmetric])
  from assms(2) have "\<bar>of_int z :: rat\<bar> \<le> 2 ^ 53" unfolding qz .
  then have "of_int \<bar>z\<bar> \<le> (2 ^ 53 :: rat)" by (simp only: of_int_abs)
  then have "\<bar>z\<bar> \<le> 2 ^ 53" by (simp only: of_int_le_numeral_power_cancel_iff)
  then show ?thesis unfolding qz by (rule round_double_int)
qed

lemma integer_add: "of_int \<lfloor>a\<rfloor> = a \<Longrightarrow> of_int \<lfloor>b\<rfloor> = b \<Longrightarrow> of_int \<lfloor>a + b\<rfloor> = (a + b :: rat)"
  by (metis floor_of_int of_int_add)

lemma integer_mult: "of_int \<lfloor>a\<rfloor> = a \<Longrightarrow> of_int \<lfloor>b\<rfloor> = b \<Longrightarrow> of_int \<lfloor>a * b\<rfloor> = (a * b :: rat)"
  by (metis floor_of_int of_int_mult)

lemma foldl_exact:
  fixes g :: "'a \<Rightarrow> rat"
  assumes "\<forall>x\<in>set xs. h x = Fin (g x) \<and> of_int \<lfloor>g x\<rfloor> = g x"
    and "of_int \<lfloor>s\<rfloor> = s"
    and "\<bar>s\<bar> + (\<Sum>x\<leftarrow>xs. \<bar>g x\<bar>) \<le> 2 ^ 53"
  shows "foldl (\<lambda>total x. total + h x) (Fin s) xs = Fin (s + (\<Sum>x\<leftarrow>xs. g x))"
  using assms
proof (induction xs arbitrary: s)
  case Nil
  then show ?case by simp
next
  case (Cons x xs)
  from Cons.prems(1) have hx: "h x = Fin (g x)" and ix: "of_int \<lfloor>g x\<rfloor> = g x"
    and rest: "\<forall>y\<in>set xs. h y = Fin (g y) \<and> of_int \<lfloor>g y\<rfloor> = g y"
    by simp_all
  have nonneg: "0 \<le> (\<Sum>y\<leftarrow>xs. \<bar>g y\<bar>)" by (rule sum_list_nonneg) auto
  have int_sum: "of_int \<lfloor>s + g x\<rfloor> = s + g x"
    using Cons.prems(2) ix by (rule integer_add)
  have "\<bar>s + g x\<bar> \<le> \<bar>s\<bar> + \<bar>g x\<bar>" by (rule abs_triangle_ineq)
  with Cons.prems(3) nonneg have bound: "\<bar>s + g x\<bar> + (\<Sum>y\<leftarrow>xs. \<bar>g y\<bar>) \<le> 2 ^ 53"
    by simp
  with nonneg have small: "\<bar>s + g x\<bar> \<le> 2 ^ 53" by linarith
  have step: "Fin s + h x = Fin (s + g x)"
    by (simp add: hx plus_jsnum_def round_double_integer [OF int_sum small])
  have "foldl (\<lambda>total x. total + h x) (Fin s) (x # xs)
          = foldl (\<lambda>total x. total + h x) (Fin (s + g x)) xs"
    by (simp add: step)
  also have "\<dots> = Fin (s + g x + (\<Sum>y\<leftarrow>xs. g y))"
    using rest int_sum bound by (rule Cons.IH)
  finally show ?case by (simp add: add.assoc)
qed

lemma abs_le_sum_list_abs:
  fixes g :: "'a \<Rightarrow> rat"
  shows "x \<in> set xs \<Longrightarrow> \<bar>g x\<bar> \<le> (\<Sum>y\<leftarrow>xs. \<bar>g y\<bar>)"
proof (induction xs)
  case Nil
  then show ?case by simp
next
  case (Cons y ys)
  have nonneg: "0 \<le> (\<Sum>z\<leftarrow>ys. \<bar>g z\<bar>)" by (rule sum_list_nonneg) auto
  show ?case
  proof (cases "x = y")
    case True
    with nonneg show ?thesis by simp
  next
    case False
    with Cons have "\<bar>g x\<bar> \<le> (\<Sum>z\<leftarrow>ys. \<bar>g z\<bar>)" by simp
    then show ?thesis by simp
  qed
qed

lemma integral_Fin: "integral v \<Longrightarrow> v = Fin (num_val v) \<and> of_int \<lfloor>num_val v\<rfloor> = num_val v"
  by (cases v) (simp_all add: integral_def num_val_def)

lemma getTotalCartValue_exact:
  fixes items :: "jsnum CartItem list"
  assumes ints: "\<forall>item\<in>set items. integral (CartItem.cost item) \<and> integral (CartItem.qty item)"
    and bound: "(\<Sum>item\<leftarrow>items. \<bar>num_val (CartItem.cost item) * num_val (CartItem.qty item)\<bar>) \<le> 2 ^ 53"
  shows "getTotalCartValue (JArr items)
           = Inr (Fin (\<Sum>item\<leftarrow>items. num_val (CartItem.cost item) * num_val (CartItem.qty item)))"
proof -
  let ?g = "\<lambda>item. num_val (CartItem.cost item) * num_val (CartItem.qty item)"
  let ?h = "\<lambda>item. CartItem.cost item * CartItem.qty item"
  have each: "\<forall>item\<in>set items. ?h item = Fin (?g item) \<and> of_int \<lfloor>?g item\<rfloor> = ?g item"
  proof
    fix item assume mem: "item \<in> set items"
    with ints have c: "CartItem.cost item = Fin (num_val (CartItem.cost item))"
      and ci: "of_int \<lfloor>num_val (CartItem.cost item)\<rfloor> = num_val (CartItem.cost item)"
      and k: "CartItem.qty item = Fin (num_val (CartItem.qty item))"
      and ki: "of_int \<lfloor>num_val (CartItem.qty item)\<rfloor> = num_val (CartItem.qty item)"
      using integral_Fin by blast+
    have gi: "of_int \<lfloor>?g item\<rfloor> = ?g item" using ci ki by (rule integer_mult)
    have "\<bar>?g item\<bar> \<le> (\<Sum>y\<leftarrow>items. \<bar>?g y\<bar>)"
      using mem by (rule abs_le_sum_list_abs)
    with bound have small: "\<bar>?g item\<bar> \<le> 2 ^ 53" by linarith
    have "?h item = js_mul (Fin (num_val (CartItem.cost item))) (Fin (num_val (CartItem.qty item)))"
      using c k by (simp add: times_jsnum_def)
    also have "\<dots> = Fin (?g item)"
      by (simp add: round_double_integer [OF gi small])
    finally show "?h item = Fin (?g item) \<and> of_int \<lfloor>?g item\<rfloor> = ?g item"
      using gi by simp
  qed
  have "foldl (\<lambda>total item. total + ?h item) (Fin 0) items = Fin (0 + (\<Sum>item\<leftarrow>items. ?g item))"
    using each _ _
  proof (rule foldl_exact)
    show "of_int \<lfloor>0::rat\<rfloor> = (0::rat)" by simp
    show "\<bar>0::rat\<bar> + (\<Sum>item\<leftarrow>items. \<bar>?g item\<bar>) \<le> 2 ^ 53" using bound by simp
  qed
  then show ?thesis
    by (simp add: getTotalCartValue_def zero_jsnum_def)
qed

lemma getTotalItems_exact:
  fixes items :: "jsnum CartItem list"
  assumes ints: "\<forall>item\<in>set items. integral (CartItem.qty item)"
    and bound: "(\<Sum>item\<leftarrow>items. \<bar>num_val (CartItem.qty item)\<bar>) \<le> 2 ^ 53"
  shows "getTotalItems (JArr items) = Inr (Fin (\<Sum>item\<leftarrow>items. num_val (CartItem.qty item)))"
proof -
  let ?g = "\<lambda>item. num_val (CartItem.qty item)"
  have each: "\<forall>item\<in>set items. CartItem.qty item = Fin (?g item) \<and> of_int \<lfloor>?g item\<rfloor> = ?g item"
    using ints integral_Fin by blast
  have "foldl (\<lambda>total item. total + CartItem.qty item) (Fin 0) items
          = Fin (0 + (\<Sum>item\<leftarrow>items. ?g item))"
    using each _ _
  proof (rule foldl_exact)
    show "of_int \<lfloor>0::rat\<rfloor> = (0::rat)" by simp
    show "\<bar>0::rat\<bar> + (\<Sum>item\<leftarrow>items. \<bar>?g item\<bar>) \<le> 2 ^ 53" using bound by simp
  qed
  then show ?thesis
    by (cases items) (simp_all add: getTotalItems_def zero_jsnum_def)
qed

subsection \<open>The code against the specification's \<open>assemble\<close>\<close>

lemma find_linear_lookup:
  "List.find (\<lambda>product. p_id product = i) ps = linear_lookup ps i"
  by (induction ps) simp_all

lemma linear_lookup_None: "linear_lookup ps i = None \<longleftrightarrow> i \<notin> p_id ` set ps"
  by (induction ps) auto

lemma linear_lookup_Some:
  "linear_lookup ps i = Some p \<Longrightarrow> p \<in> set ps \<and> p_id p = i"
  by (induction ps) (auto split: if_splits)

lemma linear_lookup_first:
  "\<forall>q\<in>set pre. p_id q \<noteq> i \<Longrightarrow> p_id p = i \<Longrightarrow> linear_lookup (pre @ p # post) i = Some p"
  by (induction pre) simp_all

lemma cart_callback_lookup:
  "cart_callback ps e con =
     (case linear_lookup ps (CartEntry.productId e) of
        None \<Rightarrow> (None, con @ [diagnostic (CartEntry.productId e)])
      | Some p \<Rightarrow> (Some (line_item p e), con))"
  by (simp add: cart_callback_def find_linear_lookup console_error_def diagnostic_def
      line_item_def split: option.splits)

lemma map_array_cart_callback:
  "map_array (cart_callback ps) es con =
     (map (\<lambda>e. map_option (\<lambda>p. line_item p e) (linear_lookup ps (CartEntry.productId e))) es,
      con @ assemble_diagnostics es ps)"
  by (induction es arbitrary: con) (simp_all add: cart_callback_lookup split: option.splits)

lemma filter_Boolean_lookup:
  "filter_Boolean
     (map (\<lambda>e. map_option (\<lambda>p. line_item p e) (linear_lookup ps (CartEntry.productId e))) es)
   = assemble_items es ps"
  by (induction es) (simp_all split: option.splits)

lemma generate_arrays:
  "ps \<noteq> [] \<Longrightarrow>
   generateCartItemsFrom (JArr es) (JArr ps) con
     = (Inr (assemble_items es ps), con @ assemble_diagnostics es ps)"
  by (simp add: generateCartItemsFrom_def map_array_cart_callback filter_Boolean_lookup)

lemma generate_guard:
  "\<not> (isArray pd \<and> elems pd \<noteq> []) \<Longrightarrow> generateCartItemsFrom cd pd con = (Inr [], con)"
  by (cases pd) (simp_all add: generateCartItemsFrom_def)

lemma generate_not_array:
  "ps \<noteq> [] \<Longrightarrow> \<not> isArray cd \<Longrightarrow> generateCartItemsFrom cd (JArr ps) con = (Inl TypeError, con)"
  by (cases cd) (simp_all add: generateCartItemsFrom_def)

lemma assemble_items_filter:
  "assemble_items es ps =
     map (\<lambda>e. line_item (the (linear_lookup ps (CartEntry.productId e))) e) (filter (known ps) es)"
  by (induction es) (auto simp: known_def linear_lookup_None[symmetric] split: option.splits)

lemma assemble_diagnostics_filter:
  "assemble_diagnostics es ps =
     map (\<lambda>e. diagnostic (CartEntry.productId e)) (filter (\<lambda>e. \<not> known ps e) es)"
  by (induction es) (auto simp: known_def linear_lookup_None[symmetric] split: option.splits)

lemma assemble_items_append:
  "assemble_items (es1 @ es2) ps = assemble_items es1 ps @ assemble_items es2 ps"
  by (induction es1) (simp_all split: option.splits)

lemma generate_console:
  "generateCartItemsFrom cd pd con =
     (fst (generateCartItemsFrom cd pd []), con @ snd (generateCartItemsFrom cd pd []))"
proof (cases "isArray pd \<and> elems pd \<noteq> []")
  case False
  then show ?thesis by (simp add: generate_guard)
next
  case True
  then obtain ps where pd: "pd = JArr ps" and ps: "ps \<noteq> []"
    by (cases pd) simp_all
  show ?thesis
  proof (cases "isArray cd")
    case False
    with ps show ?thesis by (simp add: pd generate_not_array)
  next
    case True
    then obtain es where "cd = JArr es" by (cases cd) simp_all
    with ps show ?thesis by (simp add: pd generate_arrays)
  qed
qed

lemma assemble_items_member:
  "item \<in> set (assemble_items es ps) \<Longrightarrow>
   \<exists>e\<in>set es. \<exists>p. linear_lookup ps (CartEntry.productId e) = Some p \<and> item = line_item p e"
  by (induction es) (auto split: option.splits)

lemma assemble_items_unknown: "\<forall>e\<in>set es. \<not> known ps e \<Longrightarrow> assemble_items es ps = []"
  by (simp add: assemble_items_filter)

lemma sublist_diagnostic: "sublist i (diagnostic i)"
  unfolding diagnostic_def sublist_def by blast

section \<open>The assembler: \<open>generateCartItemsFrom\<close>\<close>

text \<open>
  C1. For every array of cart entries and every non-empty catalog, \<open>generateCartItemsFrom\<close>
  processes the entries in turn as the specification's \<open>assemble\<close> does: a linear lookup by
  equality of identifiers; a line item that merges the product's fields with the entry's
  quantity when a product is found; otherwise no line item, and a diagnostic that contains
  the missing identifier, appended to the console. The diagnostics are those of the entries
  without a product, in the order of the entries. When no entry has a product, the result
  is empty (and every entry has its diagnostic).
\<close>

theorem generateCartItemsFrom_assemble:
  fixes es :: "('n::{zero,ord}) CartEntry list"
  assumes "ps \<noteq> []"
  shows "generateCartItemsFrom (JArr es) (JArr ps) con
           = (Inr (assemble_items es ps), con @ assemble_diagnostics es ps)
       \<and> assemble_diagnostics es ps
           = map (\<lambda>e. diagnostic (CartEntry.productId e)) (filter (\<lambda>e. \<not> known ps e) es)
       \<and> (\<forall>e\<in>set es. sublist (CartEntry.productId e) (diagnostic (CartEntry.productId e)))
       \<and> ((\<forall>e\<in>set es. \<not> known ps e) \<longrightarrow>
            generateCartItemsFrom (JArr es) (JArr ps) con
              = (Inr [], con @ map (\<lambda>e. diagnostic (CartEntry.productId e)) es))"
proof -
  have main: "generateCartItemsFrom (JArr es) (JArr ps) con
           = (Inr (assemble_items es ps), con @ assemble_diagnostics es ps)"
    using assms by (rule generate_arrays)
  have unknown: "generateCartItemsFrom (JArr es) (JArr ps) con
              = (Inr [], con @ map (\<lambda>e. diagnostic (CartEntry.productId e)) es)"
    if "\<forall>e\<in>set es. \<not> known ps e"
  proof -
    have "filter (\<lambda>e. \<not> known ps e) es = es" using that by simp
    then show ?thesis
      using that by (simp add: main assemble_items_unknown assemble_diagnostics_filter)
  qed
  show ?thesis
    using main unknown by (simp add: assemble_diagnostics_filter sublist_diagnostic)
qed

theorem generateCartItemsFrom_assemble_witness:
  "[\<lparr>Product.name = ''X'', category = ''c'', cost = 10, rating = 4, image = ''u'',
      p_id = ''A''\<rparr>] \<noteq> []
   \<and> generateCartItemsFrom
       (JArr [\<lparr>CartEntry.productId = ''Z'', qty = 1\<rparr>, \<lparr>CartEntry.productId = ''A'', qty = 2\<rparr>])
       (JArr [\<lparr>Product.name = ''X'', category = ''c'', cost = 10, rating = 4, image = ''u'',
               p_id = ''A''\<rparr>])
       []
     = (Inr [\<lparr>CartItem.name = ''X'', qty = 2 :: rat, category = ''c'', cost = 10, rating = 4,
               image = ''u'', productId = ''A''\<rparr>],
        [''Product with ID Z not found.''])
   \<and> generateCartItemsFrom
       (JArr [\<lparr>CartEntry.productId = ''Z'', qty = 1 :: rat\<rparr>])
       (JArr [\<lparr>Product.name = ''X'', category = ''c'', cost = 10, rating = 4, image = ''u'',
               p_id = ''A''\<rparr>])
       []
     = (Inr [], [''Product with ID Z not found.''])"
  using generateCartItemsFrom_assemble
      [of "[\<lparr>Product.name = ''X'', category = ''c'', cost = 10 :: rat, rating = 4, image = ''u'',
              p_id = ''A''\<rparr>]"
          "[\<lparr>CartEntry.productId = ''Z'', qty = 1\<rparr>, \<lparr>CartEntry.productId = ''A'', qty = 2\<rparr>]"
          "[]"]
    generateCartItemsFrom_assemble
      [of "[\<lparr>Product.name = ''X'', category = ''c'', cost = 10 :: rat, rating = 4, image = ''u'',
              p_id = ''A''\<rparr>]"
          "[\<lparr>CartEntry.productId = ''Z'', qty = 1\<rparr>]"
          "[]"]
  by (simp add: line_item_def diagnostic_def)

text \<open>
  C4. When the catalog argument is an empty array or is not an array at all (\<open>undefined\<close>
  for an absent argument, \<open>null\<close>, any other value), \<open>generateCartItemsFrom\<close> returns the
  empty array and raises no error, whatever the cart argument is (also when that one is
  not an array), and logs nothing.
\<close>

theorem generateCartItemsFrom_no_catalog:
  assumes "productsData = JArr [] \<or> \<not> isArray productsData"
  shows "generateCartItemsFrom cartData productsData con = (Inr [], con)"
  using assms by (intro generate_guard) auto

theorem generateCartItemsFrom_no_catalog_witness:
  "generateCartItemsFrom (JArr [\<lparr>CartEntry.productId = ''A'', qty = 2 :: rat\<rparr>]) (JArr []) []
     = (Inr [], [])
   \<and> generateCartItemsFrom (JArr [\<lparr>CartEntry.productId = ''A'', qty = 2 :: rat\<rparr>]) JUndefined []
     = (Inr [], [])
   \<and> generateCartItemsFrom (JArr [\<lparr>CartEntry.productId = ''A'', qty = 2 :: rat\<rparr>]) JNull []
     = (Inr [], [])
   \<and> generateCartItemsFrom (JArr [\<lparr>CartEntry.productId = ''A'', qty = 2 :: rat\<rparr>]) (JStr ''abc'') []
     = (Inr [], [])
   \<and> generateCartItemsFrom (JUndefined :: (rat, rat CartEntry) jsval) JUndefined [] = (Inr [], [])"
  using generateCartItemsFrom_no_catalog
          [of "JArr []" "JArr [\<lparr>CartEntry.productId = ''A'', qty = 2 :: rat\<rparr>]" "[]"]
        generateCartItemsFrom_no_catalog
          [of JUndefined "JArr [\<lparr>CartEntry.productId = ''A'', qty = 2 :: rat\<rparr>]" "[]"]
        generateCartItemsFrom_no_catalog
          [of JNull "JArr [\<lparr>CartEntry.productId = ''A'', qty = 2 :: rat\<rparr>]" "[]"]
        generateCartItemsFrom_no_catalog
          [of "JStr ''abc''" "JArr [\<lparr>CartEntry.productId = ''A'', qty = 2 :: rat\<rparr>]" "[]"]
        generateCartItemsFrom_no_catalog
          [of JUndefined "JUndefined :: (rat, rat CartEntry) jsval" "[]"]
  by simp

text \<open>
  C5. Every line item in the result of \<open>generateCartItemsFrom\<close> is a \<open>CartItem\<close> record of
  exactly seven fields, built from an entry of the cart and the product that the lookup
  finds for it: \<open>name\<close>, \<open>category\<close>, \<open>cost\<close>, \<open>rating\<close>, \<open>image\<close> and \<open>productId\<close> (the
  product's \<open>_id\<close>, equal to the entry's \<open>productId\<close>) come from the product, \<open>qty\<close> from
  the entry. The example of the specification, entry \<open>{productId:"A", qty:2}\<close> and product
  \<open>{_id:"A", name:"X", cost:10, ...}\<close>, is the witness.
\<close>

theorem generateCartItemsFrom_fields:
  assumes "generateCartItemsFrom (JArr es) (JArr ps) con = (Inr items, con')"
    and "item \<in> set items"
  shows "\<exists>e\<in>set es. \<exists>p\<in>set ps.
           linear_lookup ps (CartEntry.productId e) = Some p
         \<and> p_id p = CartEntry.productId e
         \<and> item = \<lparr> CartItem.name = Product.name p, qty = CartEntry.qty e,
                     category = Product.category p, cost = Product.cost p,
                     rating = Product.rating p, image = Product.image p,
                     productId = p_id p \<rparr>"
proof (cases "ps = []")
  case True
  with assms show ?thesis by (simp add: generate_guard)
next
  case False
  with assms have "item \<in> set (assemble_items es ps)"
    by (simp add: generate_arrays)
  then obtain e p where "e \<in> set es" "linear_lookup ps (CartEntry.productId e) = Some p"
    "item = line_item p e"
    using assemble_items_member by blast
  moreover from this have "p \<in> set ps" "p_id p = CartEntry.productId e"
    using linear_lookup_Some[of ps "CartEntry.productId e" p] by simp_all
  ultimately show ?thesis
    unfolding line_item_def by blast
qed

theorem generateCartItemsFrom_fields_witness:
  "generateCartItemsFrom
       (JArr [\<lparr>CartEntry.productId = ''A'', qty = 2 :: rat\<rparr>])
       (JArr [\<lparr>Product.name = ''X'', category = ''c'', cost = 10, rating = 4, image = ''u'',
               p_id = ''A''\<rparr>])
       []
     = (Inr [\<lparr>CartItem.name = ''X'', qty = 2, category = ''c'', cost = 10, rating = 4,
               image = ''u'', productId = ''A''\<rparr>], [])
   \<and> (\<exists>e p. e \<in> set [\<lparr>CartEntry.productId = ''A'', qty = 2 :: rat\<rparr>]
         \<and> p \<in> set [\<lparr>Product.name = ''X'', category = ''c'', cost = 10 :: rat, rating = 4,
                        image = ''u'', p_id = ''A''\<rparr>]
         \<and> \<lparr>CartItem.name = ''X'', qty = 2 :: rat, category = ''c'', cost = 10, rating = 4,
               image = ''u'', productId = ''A''\<rparr>
           = \<lparr> CartItem.name = Product.name p, qty = CartEntry.qty e,
               category = Product.category p, cost = Product.cost p,
               rating = Product.rating p, image = Product.image p, productId = p_id p \<rparr>)"
proof -
  let ?es = "[\<lparr>CartEntry.productId = ''A'', qty = 2 :: rat\<rparr>]"
  let ?ps = "[\<lparr>Product.name = ''X'', category = ''c'', cost = 10 :: rat, rating = 4,
                image = ''u'', p_id = ''A''\<rparr>]"
  let ?item = "\<lparr>CartItem.name = ''X'', qty = 2 :: rat, category = ''c'', cost = 10, rating = 4,
                 image = ''u'', productId = ''A''\<rparr>"
  have run: "generateCartItemsFrom (JArr ?es) (JArr ?ps) [] = (Inr [?item], [])"
    by (simp add: generateCartItemsFrom_def cart_callback_def)
  have mem: "?item \<in> set [?item]" by simp
  from generateCartItemsFrom_fields [OF run mem] run show ?thesis by blast
qed

text \<open>
  C6. For every array of cart entries and every catalog array, the result of
  \<open>generateCartItemsFrom\<close> is the array of entries with the entries of unknown products
  removed, each remaining entry mapped to its line item: the order of the entries is kept.
  The identifiers and the quantities of the result are those of the known entries, in
  their order, and the identifiers of the result are a subsequence of those of the cart.
\<close>

theorem generateCartItemsFrom_order:
  "fst (generateCartItemsFrom (JArr es) (JArr ps) con)
     = Inr (map (\<lambda>e. line_item (the (linear_lookup ps (CartEntry.productId e))) e)
              (filter (known ps) es))
   \<and> (\<exists>items. fst (generateCartItemsFrom (JArr es) (JArr ps) con) = Inr items
        \<and> map CartItem.productId items = map CartEntry.productId (filter (known ps) es)
        \<and> map CartItem.qty items = map CartEntry.qty (filter (known ps) es)
        \<and> subseq (map CartItem.productId items) (map CartEntry.productId es))"
proof -
  let ?items = "map (\<lambda>e. line_item (the (linear_lookup ps (CartEntry.productId e))) e)
                  (filter (known ps) es)"
  have run: "fst (generateCartItemsFrom (JArr es) (JArr ps) con) = Inr ?items"
  proof (cases "ps = []")
    case True
    then show ?thesis by (simp add: generate_guard known_def)
  next
    case False
    then show ?thesis by (simp add: generate_arrays assemble_items_filter)
  qed
  have known_id: "CartItem.productId (line_item (the (linear_lookup ps (CartEntry.productId e))) e)
          = CartEntry.productId e" if "known ps e" for e
  proof -
    from that obtain p where "linear_lookup ps (CartEntry.productId e) = Some p"
      using linear_lookup_None[of ps "CartEntry.productId e"] by (auto simp: known_def)
    then show ?thesis
      using linear_lookup_Some[of ps "CartEntry.productId e" p] by (simp add: line_item_def)
  qed
  have ids: "map CartItem.productId ?items = map CartEntry.productId (filter (known ps) es)"
    by (simp add: known_id)
  have qtys: "map CartItem.qty ?items = map CartEntry.qty (filter (known ps) es)"
    by (simp add: line_item_def)
  have sub: "subseq (map CartItem.productId ?items) (map CartEntry.productId es)"
    unfolding ids by (simp add: subseq_map)
  from run ids qtys sub show ?thesis by blast
qed

theorem generateCartItemsFrom_order_witness:
  "fst (generateCartItemsFrom
       (JArr [\<lparr>CartEntry.productId = ''B'', qty = 3 :: rat\<rparr>,
              \<lparr>CartEntry.productId = ''Z'', qty = 1\<rparr>,
              \<lparr>CartEntry.productId = ''A'', qty = 2\<rparr>])
       (JArr [\<lparr>Product.name = ''X'', category = ''c'', cost = 10, rating = 4, image = ''u'',
               p_id = ''A''\<rparr>,
              \<lparr>Product.name = ''Y'', category = ''d'', cost = 7, rating = 5, image = ''v'',
               p_id = ''B''\<rparr>])
       [])
     = Inr [\<lparr>CartItem.name = ''Y'', qty = 3, category = ''d'', cost = 7, rating = 5,
              image = ''v'', productId = ''B''\<rparr>,
            \<lparr>CartItem.name = ''X'', qty = 2, category = ''c'', cost = 10, rating = 4,
              image = ''u'', productId = ''A''\<rparr>]"
  using generateCartItemsFrom_order
      [of "[\<lparr>CartEntry.productId = ''B'', qty = 3 :: rat\<rparr>,
            \<lparr>CartEntry.productId = ''Z'', qty = 1\<rparr>,
            \<lparr>CartEntry.productId = ''A'', qty = 2\<rparr>]"
          "[\<lparr>Product.name = ''X'', category = ''c'', cost = 10, rating = 4, image = ''u'',
              p_id = ''A''\<rparr>,
            \<lparr>Product.name = ''Y'', category = ''d'', cost = 7, rating = 5, image = ''v'',
              p_id = ''B''\<rparr>]"
          "[]", THEN conjunct1]
  by (simp add: known_def line_item_def)

text \<open>
  C8. The result of \<open>generateCartItemsFrom\<close> depends on its two arguments only, not on the
  state of the console; a second call with the same arguments, made after the first one,
  returns the same value and appends the same diagnostics again.
\<close>

theorem generateCartItemsFrom_deterministic:
  "fst (generateCartItemsFrom cartData productsData con1)
     = fst (generateCartItemsFrom cartData productsData con2)
   \<and> (\<exists>r d. generateCartItemsFrom cartData productsData con1 = (r, con1 @ d)
           \<and> generateCartItemsFrom cartData productsData (con1 @ d) = (r, con1 @ d @ d))"
proof -
  let ?r = "fst (generateCartItemsFrom cartData productsData [])"
  let ?d = "snd (generateCartItemsFrom cartData productsData [])"
  have run: "generateCartItemsFrom cartData productsData con = (?r, con @ ?d)" for con
    by (rule generate_console)
  have "fst (generateCartItemsFrom cartData productsData con1)
          = fst (generateCartItemsFrom cartData productsData con2)"
    by (simp add: run [of con1] run [of con2])
  moreover have "generateCartItemsFrom cartData productsData con1 = (?r, con1 @ ?d)"
    by (rule run)
  moreover have "generateCartItemsFrom cartData productsData (con1 @ ?d) = (?r, con1 @ ?d @ ?d)"
    using run [of "con1 @ ?d"] by simp
  ultimately show ?thesis by blast
qed

theorem generateCartItemsFrom_deterministic_witness:
  "fst (generateCartItemsFrom
       (JArr [\<lparr>CartEntry.productId = ''Z'', qty = 1 :: rat\<rparr>,
              \<lparr>CartEntry.productId = ''A'', qty = 2\<rparr>])
       (JArr [\<lparr>Product.name = ''X'', category = ''c'', cost = 10, rating = 4, image = ''u'',
               p_id = ''A''\<rparr>])
       [''Product with ID Z not found.''])
     = Inr [\<lparr>CartItem.name = ''X'', qty = 2, category = ''c'', cost = 10, rating = 4,
              image = ''u'', productId = ''A''\<rparr>]"
proof -
  let ?cd = "JArr [\<lparr>CartEntry.productId = ''Z'', qty = 1 :: rat\<rparr>,
                   \<lparr>CartEntry.productId = ''A'', qty = 2\<rparr>]"
  let ?pd = "JArr [\<lparr>Product.name = ''X'', category = ''c'', cost = 10 :: rat, rating = 4,
                    image = ''u'', p_id = ''A''\<rparr>]"
  have first: "generateCartItemsFrom ?cd ?pd []
     = (Inr [\<lparr>CartItem.name = ''X'', qty = 2, category = ''c'', cost = 10, rating = 4,
               image = ''u'', productId = ''A''\<rparr>], [''Product with ID Z not found.''])"
    by (simp add: generateCartItemsFrom_def cart_callback_def console_error_def)
  from generateCartItemsFrom_deterministic
         [of ?cd ?pd "[''Product with ID Z not found.'']" "[]", THEN conjunct1]
  show ?thesis by (simp add: first)
qed

text \<open>
  C9. The guard of \<open>generateCartItemsFrom\<close> covers the catalog only. With a non-empty
  catalog array, a cart argument that is not an array (\<open>undefined\<close> for an absent
  argument, \<open>null\<close>, any other value) makes the call of \<open>cartData.map\<close> throw a TypeError: the
  function does not return the empty array.
\<close>

theorem generateCartItemsFrom_cartData_unguarded:
  assumes "ps \<noteq> []" and "\<not> isArray cartData"
  shows "generateCartItemsFrom cartData (JArr ps) con = (Inl TypeError, con)"
  using assms by (rule generate_not_array)

theorem generateCartItemsFrom_cartData_unguarded_witness:
  "generateCartItemsFrom (JUndefined :: (rat, rat CartEntry) jsval)
       (JArr [\<lparr>Product.name = ''X'', category = ''c'', cost = 10, rating = 4, image = ''u'',
               p_id = ''A''\<rparr>]) []
     = (Inl TypeError, [])
   \<and> generateCartItemsFrom (JNull :: (rat, rat CartEntry) jsval)
       (JArr [\<lparr>Product.name = ''X'', category = ''c'', cost = 10, rating = 4, image = ''u'',
               p_id = ''A''\<rparr>]) []
     = (Inl TypeError, [])
   \<and> generateCartItemsFrom (JObj :: (rat, rat CartEntry) jsval)
       (JArr [\<lparr>Product.name = ''X'', category = ''c'', cost = 10, rating = 4, image = ''u'',
               p_id = ''A''\<rparr>]) []
     = (Inl TypeError, [])"
  using generateCartItemsFrom_cartData_unguarded
          [of "[\<lparr>Product.name = ''X'', category = ''c'', cost = 10 :: rat, rating = 4,
                  image = ''u'', p_id = ''A''\<rparr>]" JUndefined "[]"]
        generateCartItemsFrom_cartData_unguarded
          [of "[\<lparr>Product.name = ''X'', category = ''c'', cost = 10 :: rat, rating = 4,
                  image = ''u'', p_id = ''A''\<rparr>]" JNull "[]"]
        generateCartItemsFrom_cartData_unguarded
          [of "[\<lparr>Product.name = ''X'', category = ''c'', cost = 10 :: rat, rating = 4,
                  image = ''u'', p_id = ''A''\<rparr>]" JObj "[]"]
  by simp

text \<open>
  C10. When several products of the catalog have the identifier of an entry, the entry is
  resolved to the first of them in catalog order, whatever follows it in the catalog, and
  it gives exactly one line item, built from that product: alone, and at its place among
  the line items of the other entries.
\<close>

theorem generateCartItemsFrom_first_match:
  assumes "\<forall>q\<in>set pre. p_id q \<noteq> CartEntry.productId e"
    and "p_id p = CartEntry.productId e"
  shows "generateCartItemsFrom (JArr [e]) (JArr (pre @ p # post)) con
           = (Inr [line_item p e], con)
       \<and> fst (generateCartItemsFrom (JArr (es1 @ e # es2)) (JArr (pre @ p # post)) con)
           = Inr (assemble_items es1 (pre @ p # post) @ line_item p e
                   # assemble_items es2 (pre @ p # post))"
proof -
  have look: "linear_lookup (pre @ p # post) (CartEntry.productId e) = Some p"
    using assms by (rule linear_lookup_first)
  have ne: "pre @ p # post \<noteq> []" by simp
  show ?thesis
    by (simp add: generate_arrays [OF ne] assemble_items_append look)
qed

theorem generateCartItemsFrom_first_match_witness:
  "generateCartItemsFrom
       (JArr [\<lparr>CartEntry.productId = ''A'', qty = 2 :: rat\<rparr>])
       (JArr [\<lparr>Product.name = ''W'', category = ''b'', cost = 1, rating = 1, image = ''t'',
               p_id = ''B''\<rparr>,
              \<lparr>Product.name = ''X'', category = ''c'', cost = 10, rating = 4, image = ''u'',
               p_id = ''A''\<rparr>,
              \<lparr>Product.name = ''Y'', category = ''d'', cost = 20, rating = 5, image = ''v'',
               p_id = ''A''\<rparr>])
       []
     = (Inr [\<lparr>CartItem.name = ''X'', qty = 2, category = ''c'', cost = 10, rating = 4,
               image = ''u'', productId = ''A''\<rparr>], [])"
  using generateCartItemsFrom_first_match
      [of "[\<lparr>Product.name = ''W'', category = ''b'', cost = 1 :: rat, rating = 1, image = ''t'',
              p_id = ''B''\<rparr>]"
          "\<lparr>CartEntry.productId = ''A'', qty = 2 :: rat\<rparr>"
          "\<lparr>Product.name = ''X'', category = ''c'', cost = 10, rating = 4, image = ''u'',
              p_id = ''A''\<rparr>"
          "[\<lparr>Product.name = ''Y'', category = ''d'', cost = 20, rating = 5, image = ''v'',
              p_id = ''A''\<rparr>]"
          "[]" "[]" "[]"]
  by (simp add: line_item_def)

section \<open>The aggregates: \<open>getTotalCartValue\<close> and \<open>getTotalItems\<close>\<close>

text \<open>
  C2 (as amended). For every array of line items, \<open>getTotalCartValue\<close> returns the total
  that is accumulated from \<open>0\<close>, left to right, of \<open>cost * qty\<close> in the arithmetic of doubles:
  each product and each addition is rounded to the nearest double. It returns \<open>0\<close> for an
  empty and for an undefined (absent) argument, and nothing is required of the fields:
  negative and fractional quantities, infinities and \<open>NaN\<close> go through the arithmetic. The
  result is the exact sum of \<open>cost * qty\<close> when all costs and quantities are integers and the
  sum of \<open>\<bar>cost * qty\<bar>\<close> is at most \<open>2 ^ 53\<close>. The examples of the specification are
  \<open>[] \<mapsto> 0\<close> and \<open>[{cost:5, qty:3}, {cost:2, qty:1}] \<mapsto> 17\<close>; the last conjunct is an example
  with a negative and a fractional quantity.
\<close>

theorem getTotalCartValue_double_sum:
  fixes items :: "jsnum CartItem list"
  shows "getTotalCartValue (JArr [] :: (jsnum, jsnum CartItem) jsval) = Inr (Fin 0)
       \<and> getTotalCartValue (JUndefined :: (jsnum, jsnum CartItem) jsval) = Inr (Fin 0)
       \<and> (\<exists>total. getTotalCartValue (JArr items) = Inr total
             \<and> getTotalCartValue (JArr (items @ [item]))
                 = Inr (total + CartItem.cost item * CartItem.qty item))
       \<and> ((\<forall>item\<in>set items. integral (CartItem.cost item) \<and> integral (CartItem.qty item))
            \<and> (\<Sum>item\<leftarrow>items. \<bar>num_val (CartItem.cost item) * num_val (CartItem.qty item)\<bar>)
                  \<le> 2 ^ 53
          \<longrightarrow> getTotalCartValue (JArr items)
                = Inr (Fin (\<Sum>item\<leftarrow>items.
                              num_val (CartItem.cost item) * num_val (CartItem.qty item))))
       \<and> getTotalCartValue (JArr
            [\<lparr>CartItem.name = n1, qty = Fin 3, category = c1, cost = Fin 5, rating = r1,
               image = i1, productId = d1\<rparr>,
             \<lparr>CartItem.name = n2, qty = Fin 1, category = c2, cost = Fin 2, rating = r2,
               image = i2, productId = d2\<rparr>]) = Inr (Fin 17)
       \<and> getTotalCartValue (JArr
            [\<lparr>CartItem.name = n1, qty = Fin (- 3), category = c1, cost = Fin 5, rating = r1,
               image = i1, productId = d1\<rparr>,
             \<lparr>CartItem.name = n2, qty = Fin (1 / 2), category = c2, cost = Fin 2, rating = r2,
               image = i2, productId = d2\<rparr>]) = Inr (Fin (- 14))"
proof -
  have empty: "getTotalCartValue (JArr [] :: (jsnum, jsnum CartItem) jsval) = Inr (Fin 0)"
    and undef: "getTotalCartValue (JUndefined :: (jsnum, jsnum CartItem) jsval) = Inr (Fin 0)"
    by (simp_all add: getTotalCartValue_def zero_jsnum_def)
  have running: "\<exists>total. getTotalCartValue (JArr items) = Inr total
             \<and> getTotalCartValue (JArr (items @ [item]))
                 = Inr (total + CartItem.cost item * CartItem.qty item)"
    by (simp add: getTotalCartValue_def)
  have ex1: "getTotalCartValue (JArr
            [\<lparr>CartItem.name = n1, qty = Fin 3, category = c1, cost = Fin 5, rating = r1,
               image = i1, productId = d1\<rparr>,
             \<lparr>CartItem.name = n2, qty = Fin 1, category = c2, cost = Fin 2, rating = r2,
               image = i2, productId = d2\<rparr>]) = Inr (Fin 17)"
    by (simp add: getTotalCartValue_def jsnum_eval round_eval)
  have ex2: "getTotalCartValue (JArr
            [\<lparr>CartItem.name = n1, qty = Fin (- 3), category = c1, cost = Fin 5, rating = r1,
               image = i1, productId = d1\<rparr>,
             \<lparr>CartItem.name = n2, qty = Fin (1 / 2), category = c2, cost = Fin 2, rating = r2,
               image = i2, productId = d2\<rparr>]) = Inr (Fin (- 14))"
    by (simp add: getTotalCartValue_def jsnum_eval round_eval)
  from empty undef running ex1 ex2 getTotalCartValue_exact [of items]
  show ?thesis by blast
qed

theorem getTotalCartValue_double_sum_witness:
  "getTotalCartValue (JArr
      [\<lparr>CartItem.name = ''X'', qty = Fin 3, category = ''c'', cost = Fin 5, rating = Fin 4,
         image = ''u'', productId = ''A''\<rparr>,
       \<lparr>CartItem.name = ''Y'', qty = Fin (- 1), category = ''d'', cost = Fin 2, rating = Fin 5,
         image = ''v'', productId = ''B''\<rparr>]) = Inr (Fin 13)"
  using getTotalCartValue_double_sum
      [of "[\<lparr>CartItem.name = ''X'', qty = Fin 3, category = ''c'', cost = Fin 5, rating = Fin 4,
              image = ''u'', productId = ''A''\<rparr>,
            \<lparr>CartItem.name = ''Y'', qty = Fin (- 1), category = ''d'', cost = Fin 2,
              rating = Fin 5, image = ''v'', productId = ''B''\<rparr>]"]
  by (simp add: integral_def num_val_def)

text \<open>
  C2 as stated gives the sum of \<open>cost * qty\<close> for every array. The rounding makes the result
  differ from it: for the costs \<open>2 ^ 53\<close> and \<open>1\<close>, each of quantity \<open>1\<close>, the result is
  \<open>2 ^ 53\<close>; for the cost \<open>0.1\<close> (the double nearest to it) and the quantity \<open>3\<close>, the result
  is the double \<open>0.30000000000000004\<close>, which is not three times the cost.
\<close>

theorem getTotalCartValue_rounding_counterexample:
  "getTotalCartValue (JArr
      [\<lparr>CartItem.name = ''X'', qty = Fin 1, category = ''c'', cost = Fin 9007199254740992,
         rating = Fin 4, image = ''u'', productId = ''A''\<rparr>,
       \<lparr>CartItem.name = ''Y'', qty = Fin 1, category = ''d'', cost = Fin 1, rating = Fin 5,
         image = ''v'', productId = ''B''\<rparr>]) = Inr (Fin 9007199254740992)
   \<and> getTotalCartValue (JArr
      [\<lparr>CartItem.name = ''X'', qty = Fin 1, category = ''c'', cost = Fin 9007199254740992,
         rating = Fin 4, image = ''u'', productId = ''A''\<rparr>,
       \<lparr>CartItem.name = ''Y'', qty = Fin 1, category = ''d'', cost = Fin 1, rating = Fin 5,
         image = ''v'', productId = ''B''\<rparr>]) \<noteq> Inr (Fin (9007199254740992 * 1 + 1 * 1))
   \<and> getTotalCartValue (JArr
      [\<lparr>CartItem.name = ''X'', qty = Fin 3, category = ''c'',
         cost = Fin (3602879701896397 / 36028797018963968),
         rating = Fin 4, image = ''u'', productId = ''A''\<rparr>])
       = Inr (Fin (1351079888211149 / 4503599627370496))
   \<and> getTotalCartValue (JArr
      [\<lparr>CartItem.name = ''X'', qty = Fin 3, category = ''c'',
         cost = Fin (3602879701896397 / 36028797018963968),
         rating = Fin 4, image = ''u'', productId = ''A''\<rparr>])
       \<noteq> Inr (Fin (3602879701896397 / 36028797018963968 * 3))"
  by (simp add: getTotalCartValue_def jsnum_eval round_eval)

text \<open>
  C3 (as amended). For every array of line items, \<open>getTotalItems\<close> returns the total that is
  accumulated from \<open>0\<close>, left to right, of \<open>qty\<close> in the arithmetic of doubles, each addition
  rounded to the nearest double, and \<open>0\<close> for an empty and for an undefined (absent)
  argument. A length of zero returns \<open>0\<close> before any reduction is attempted: the empty
  string has length zero and no \<open>reduce\<close>, so the reduction would throw on it, and
  \<open>getTotalItems\<close> returns \<open>0\<close>. The result is the exact sum of \<open>qty\<close> when all quantities are
  integers and the sum of \<open>\<bar>qty\<bar>\<close> is at most \<open>2 ^ 53\<close>. The examples of the specification are
  \<open>[] \<mapsto> 0\<close> and \<open>[{qty:2}, {qty:3}] \<mapsto> 5\<close>.
\<close>

theorem getTotalItems_double_sum:
  fixes items :: "jsnum CartItem list"
  shows "getTotalItems (JArr [] :: (jsnum, jsnum CartItem) jsval) = Inr (Fin 0)
       \<and> getTotalItems (JUndefined :: (jsnum, jsnum CartItem) jsval) = Inr (Fin 0)
       \<and> getTotalItems (JStr [] :: (jsnum, jsnum CartItem) jsval) = Inr (Fin 0)
       \<and> js_reduce (\<lambda>total item. total + CartItem.qty item) 0
            (JStr [] :: (jsnum, jsnum CartItem) jsval) = Inl TypeError
       \<and> (\<exists>total. getTotalItems (JArr items) = Inr total
             \<and> getTotalItems (JArr (items @ [item])) = Inr (total + CartItem.qty item))
       \<and> ((\<forall>item\<in>set items. integral (CartItem.qty item))
            \<and> (\<Sum>item\<leftarrow>items. \<bar>num_val (CartItem.qty item)\<bar>) \<le> 2 ^ 53
          \<longrightarrow> getTotalItems (JArr items)
                = Inr (Fin (\<Sum>item\<leftarrow>items. num_val (CartItem.qty item))))
       \<and> getTotalItems (JArr
            [\<lparr>CartItem.name = n1, qty = Fin 2, category = c1, cost = k1, rating = r1,
               image = i1, productId = d1\<rparr>,
             \<lparr>CartItem.name = n2, qty = Fin 3, category = c2, cost = k2, rating = r2,
               image = i2, productId = d2\<rparr>]) = Inr (Fin 5)"
proof -
  have fixed: "getTotalItems (JArr [] :: (jsnum, jsnum CartItem) jsval) = Inr (Fin 0)"
    "getTotalItems (JUndefined :: (jsnum, jsnum CartItem) jsval) = Inr (Fin 0)"
    "getTotalItems (JStr [] :: (jsnum, jsnum CartItem) jsval) = Inr (Fin 0)"
    "js_reduce (\<lambda>total item. total + CartItem.qty item) 0
            (JStr [] :: (jsnum, jsnum CartItem) jsval) = Inl TypeError"
    by (simp_all add: getTotalItems_def zero_jsnum_def)
  have running: "\<exists>total. getTotalItems (JArr items) = Inr total
             \<and> getTotalItems (JArr (items @ [item])) = Inr (total + CartItem.qty item)"
    by (cases items) (simp_all add: getTotalItems_def)
  have ex: "getTotalItems (JArr
            [\<lparr>CartItem.name = n1, qty = Fin 2, category = c1, cost = k1, rating = r1,
               image = i1, productId = d1\<rparr>,
             \<lparr>CartItem.name = n2, qty = Fin 3, category = c2, cost = k2, rating = r2,
               image = i2, productId = d2\<rparr>]) = Inr (Fin 5)"
    by (simp add: getTotalItems_def jsnum_eval round_eval)
  from fixed running ex getTotalItems_exact [of items]
  show ?thesis by blast
qed

theorem getTotalItems_double_sum_witness:
  "getTotalItems (JArr
      [\<lparr>CartItem.name = ''X'', qty = Fin 2, category = ''c'', cost = Fin 5, rating = Fin 4,
         image = ''u'', productId = ''A''\<rparr>,
       \<lparr>CartItem.name = ''Y'', qty = Fin 3, category = ''d'', cost = Fin 2, rating = Fin 5,
         image = ''v'', productId = ''B''\<rparr>]) = Inr (Fin 5)"
  using getTotalItems_double_sum
      [of "[\<lparr>CartItem.name = ''X'', qty = Fin 2, category = ''c'', cost = Fin 5, rating = Fin 4,
              image = ''u'', productId = ''A''\<rparr>,
            \<lparr>CartItem.name = ''Y'', qty = Fin 3, category = ''d'', cost = Fin 2,
              rating = Fin 5, image = ''v'', productId = ''B''\<rparr>]"]
  by (simp add: integral_def num_val_def)

text \<open>
  C3 as stated gives the sum of \<open>qty\<close> for every array. The rounding makes the result
  differ from it: for the quantities \<open>2 ^ 53\<close> and \<open>1\<close> the result is \<open>2 ^ 53\<close>; for the
  quantities \<open>0.1\<close> and \<open>0.2\<close> (the doubles nearest to them) the result is the double
  \<open>0.30000000000000004\<close>, which is not their sum.
\<close>

theorem getTotalItems_rounding_counterexample:
  "getTotalItems (JArr
      [\<lparr>CartItem.name = ''X'', qty = Fin 9007199254740992, category = ''c'', cost = Fin 1,
         rating = Fin 4, image = ''u'', productId = ''A''\<rparr>,
       \<lparr>CartItem.name = ''Y'', qty = Fin 1, category = ''d'', cost = Fin 1, rating = Fin 5,
         image = ''v'', productId = ''B''\<rparr>]) = Inr (Fin 9007199254740992)
   \<and> getTotalItems (JArr
      [\<lparr>CartItem.name = ''X'', qty = Fin 9007199254740992, category = ''c'', cost = Fin 1,
         rating = Fin 4, image = ''u'', productId = ''A''\<rparr>,
       \<lparr>CartItem.name = ''Y'', qty = Fin 1, category = ''d'', cost = Fin 1, rating = Fin 5,
         image = ''v'', productId = ''B''\<rparr>]) \<noteq> Inr (Fin (9007199254740992 + 1))
   \<and> getTotalItems (JArr
      [\<lparr>CartItem.name = ''X'', qty = Fin (3602879701896397 / 36028797018963968),
         category = ''c'', cost = Fin 1, rating = Fin 4, image = ''u'', productId = ''A''\<rparr>,
       \<lparr>CartItem.name = ''Y'', qty = Fin (3602879701896397 / 18014398509481984),
         category = ''d'', cost = Fin 1, rating = Fin 5, image = ''v'', productId = ''B''\<rparr>])
       = Inr (Fin (1351079888211149 / 4503599627370496))
   \<and> getTotalItems (JArr
      [\<lparr>CartItem.name = ''X'', qty = Fin (3602879701896397 / 36028797018963968),
         category = ''c'', cost = Fin 1, rating = Fin 4, image = ''u'', productId = ''A''\<rparr>,
       \<lparr>CartItem.name = ''Y'', qty = Fin (3602879701896397 / 18014398509481984),
         category = ''d'', cost = Fin 1, rating = Fin 5, image = ''v'', productId = ''B''\<rparr>])
       \<noteq> Inr (Fin (3602879701896397 / 36028797018963968
                      + 3602879701896397 / 18014398509481984))"
  by (simp add: getTotalItems_def jsnum_eval round_eval)

text \<open>
  C7 (as amended). \<open>getTotalCartValue\<close> and \<open>getTotalItems\<close> read no state and write none:
  they are functions of their argument alone. For every array of line items, and for an
  undefined (absent) argument, each returns a number and no error.
\<close>

theorem aggregates_total:
  fixes items :: "('n::{zero,plus,times}) CartItem list"
  shows "(\<exists>n. getTotalCartValue (JArr items) = Inr n)
       \<and> (\<exists>n. getTotalItems (JArr items) = Inr n)
       \<and> (\<exists>n. getTotalCartValue (JUndefined :: ('n, 'n CartItem) jsval) = Inr n)
       \<and> (\<exists>n. getTotalItems (JUndefined :: ('n, 'n CartItem) jsval) = Inr n)"
  by (simp add: getTotalCartValue_def getTotalItems_def)

text \<open>
  C7 as stated also covers a \<open>null\<close> argument. The default parameter replaces
  \<open>undefined\<close> only, so on \<open>null\<close> both functions throw a TypeError when they read
  \<open>reduce\<close> and \<open>length\<close>.
\<close>

theorem aggregates_null_counterexample:
  "getTotalCartValue (JNull :: (rat, rat CartItem) jsval) = Inl TypeError
   \<and> getTotalItems (JNull :: (rat, rat CartItem) jsval) = Inl TypeError"
  by (simp add: getTotalCartValue_def getTotalItems_def)

end
